theory Spec2Isabelle
  imports Complex_Main "HOL-Library.Word"
begin

unbundle bit_operations_syntax

section \<open>Data model (include/phenomemory_platform.h)\<close>

text \<open>
  Bit-fields are words of their declared width, so a store truncates as the C store does.
  A pointer that the code tests against NULL is an \<open>option\<close>; the navigation links,
  which no modelled function follows, are addresses.
\<close>

record PhenoTokenType =
  category :: "4 word"
  node_level :: "3 word"
  cluster_id :: "8 word"
  frame_ref :: "8 word"
  degradation :: "4 word"
  reserved :: "5 word"

record PhenoRelation =
  subject_id :: "8 word"
  subject_type :: "8 word"
  subject_state :: "8 word"
  subject_class :: "8 word"
  class_id :: "8 word"
  class_category :: "8 word"
  class_taxonomy :: "8 word"
  class_level :: "8 word"
  instance_id :: "8 word"
  instance_type :: "8 word"
  instance_state :: "8 word"
  instance_flags :: "8 word"
  person_id :: "8 word"
  person_role :: "8 word"
  person_auth :: "8 word"
  person_state :: "8 word"

record ValueHeader =
  data_size :: "16 word"
  encoding :: "4 word"
  compression :: "3 word"
  encrypted :: "1 word"
  frame_id :: "16 word"
  timestamp :: "24 word"

record ValueMetrics =
  score :: "10 word"
  confidence :: "10 word"
  retry_count :: "6 word"
  priority :: "6 word"

record PhenoTokenValue =
  header :: ValueHeader
  metrics :: ValueMetrics
  raw_bytes :: "8 word list"

record MemFlags =
  allocated :: "1 word"
  locked :: "1 word"
  dirty :: "1 word"
  pinned :: "1 word"
  shared :: "1 word"
  coherent :: "1 word"
  nil_state :: "1 word"
  null_state :: "1 word"
  ref_count :: "8 word"
  mem_zone :: "4 word"
  access_level :: "4 word"
  reserved :: "8 word"

record PhenoToken =
  token_id :: "32 word"
  token_type :: "8 word"
  token_name :: string
  type :: PhenoTokenType
  tok_value :: "PhenoTokenValue option"
  relation :: PhenoRelation
  mem_flags :: MemFlags
  left :: "nat option"
  right :: "nat option"
  parent :: "nat option"
  balance_factor :: "8 word"

text \<open>The enum \<open>PhenoState\<close>; the functions below pass states as C \<open>int\<close>.\<close>

definition STATE_NIL :: int where "STATE_NIL = 0"
definition STATE_ALLOCATED :: int where "STATE_ALLOCATED = 1"
definition STATE_LOCKED :: int where "STATE_LOCKED = 2"
definition STATE_ACTIVE :: int where "STATE_ACTIVE = 3"
definition STATE_DEGRADED :: int where "STATE_DEGRADED = 4"
definition STATE_SHARED :: int where "STATE_SHARED = 5"
definition STATE_FREED :: int where "STATE_FREED = 6"

definition NODE_IDENTITY :: "8 word" where "NODE_IDENTITY = 0x01"

definition PHENO_MAX_PAYLOAD :: nat where "PHENO_MAX_PAYLOAD = 4096"

text \<open>What \<open>calloc\<close> hands out: every field zero, every pointer NULL.\<close>

definition zero_value :: PhenoTokenValue where
  "zero_value =
     \<lparr> header = \<lparr> data_size = 0, encoding = 0, compression = 0, encrypted = 0,
                  frame_id = 0, timestamp = 0 \<rparr>,
       metrics = \<lparr> score = 0, confidence = 0, retry_count = 0, priority = 0 \<rparr>,
       raw_bytes = replicate PHENO_MAX_PAYLOAD 0 \<rparr>"

definition zero_relation :: PhenoRelation where
  "zero_relation =
     \<lparr> subject_id = 0, subject_type = 0, subject_state = 0, subject_class = 0,
       class_id = 0, class_category = 0, class_taxonomy = 0, class_level = 0,
       instance_id = 0, instance_type = 0, instance_state = 0, instance_flags = 0,
       person_id = 0, person_role = 0, person_auth = 0, person_state = 0 \<rparr>"

definition zero_flags :: MemFlags where
  "zero_flags =
     \<lparr> allocated = 0, locked = 0, dirty = 0, pinned = 0, shared = 0, coherent = 0,
       nil_state = 0, null_state = 0, ref_count = 0, mem_zone = 0, access_level = 0,
       reserved = 0 \<rparr>"

definition zero_token :: PhenoToken where
  "zero_token =
     \<lparr> token_id = 0, token_type = 0, token_name = [],
       type = \<lparr> category = 0, node_level = 0, cluster_id = 0, frame_ref = 0,
                degradation = 0, reserved = 0 \<rparr>,
       tok_value = None, relation = zero_relation, mem_flags = zero_flags,
       left = None, right = None, parent = None, balance_factor = 0 \<rparr>"

section \<open>Token management and state machine (src/core/pheno_memory.c)\<close>

text \<open>
  \<open>gosiuml_create_token\<close>. The two \<open>calloc\<close> calls may fail; their outcomes are the
  first two arguments. \<open>strncpy\<close> copies at most 63 characters of the C string into the
  zeroed 64-byte name buffer. A NULL name is \<open>None\<close>.
\<close>

definition gosiuml_create_token ::
    "bool \<Rightarrow> bool \<Rightarrow> 8 word \<Rightarrow> string option \<Rightarrow> PhenoToken option" where
  "gosiuml_create_token token_alloc value_alloc ty name =
     (if \<not> token_alloc then None
      else Some (zero_token
        \<lparr> token_type := ty,
          token_name := (case name of None \<Rightarrow> []
                         | Some n \<Rightarrow> take 63 (takeWhile (\<lambda>c. c \<noteq> CHR 0x00) n)),
          tok_value := (if value_alloc then Some zero_value else None),
          mem_flags := zero_flags \<lparr> allocated := 1, ref_count := 1 \<rparr> \<rparr>))"

text \<open>\<open>gosiuml_get_state\<close>: the state is derived from the flags and the score.\<close>

definition gosiuml_get_state :: "PhenoToken option \<Rightarrow> int" where
  "gosiuml_get_state token =
     (case token of
        None \<Rightarrow> STATE_NIL
      | Some t \<Rightarrow>
          if allocated (mem_flags t) = 0 then STATE_NIL
          else if locked (mem_flags t) \<noteq> 0 then STATE_LOCKED
          else if shared (mem_flags t) \<noteq> 0 then STATE_SHARED
          else if (case tok_value t of None \<Rightarrow> False
                   | Some v \<Rightarrow> 600 < uint (score (metrics v))) then STATE_DEGRADED
          else STATE_ACTIVE)"

text \<open>
  \<open>gosiuml_transition\<close> returns the status code and the token as the call leaves it.
  The \<open>switch\<close> has three cases and a default.
\<close>

definition gosiuml_transition :: "PhenoToken option \<Rightarrow> int \<Rightarrow> int \<times> PhenoToken option" where
  "gosiuml_transition token new_state =
     (case token of
        None \<Rightarrow> (- 1, None)
      | Some t \<Rightarrow>
          let current = gosiuml_get_state (Some t) in
          if new_state = STATE_ALLOCATED then
            (if current \<noteq> STATE_NIL then (- 1, Some t)
             else (0, Some (t \<lparr> mem_flags := (mem_flags t) \<lparr> allocated := 1 \<rparr> \<rparr>)))
          else if new_state = STATE_LOCKED then
            (if current \<noteq> STATE_ALLOCATED \<and> current \<noteq> STATE_ACTIVE then (- 1, Some t)
             else (0, Some (t \<lparr> mem_flags := (mem_flags t) \<lparr> locked := 1 \<rparr> \<rparr>)))
          else if new_state = STATE_FREED then
            (0, Some (t \<lparr> mem_flags := (mem_flags t) \<lparr> allocated := 0, locked := 0 \<rparr> \<rparr>))
          else (- 1, Some t))"

text \<open>
  \<open>gosiuml_free_token\<close>. The heap maps the address of each live token record to the
  record; the value block hangs off its token (the option inside the record), so the
  release of the record ends both lifetimes. The function returns nothing and reads no
  flag: a NULL token is ignored, any other token is released.
\<close>

definition gosiuml_free_token :: "(nat \<rightharpoonup> PhenoToken) \<Rightarrow> nat option \<Rightarrow> (nat \<rightharpoonup> PhenoToken)" where
  "gosiuml_free_token heap tok =
     (case tok of
        None \<Rightarrow> heap
      | Some p \<Rightarrow> heap (p := None))"

text \<open>
  \<open>gosiuml_test_state_machine\<close>, the library's own test of the state machine. The
  context is only tested against NULL; the allocation outcomes are passed on to
  \<open>gosiuml_create_token\<close>. The closing \<open>gosiuml_free_token\<close> has no part in the result.
\<close>

definition gosiuml_test_state_machine :: "bool \<Rightarrow> bool \<Rightarrow> 'ctx option \<Rightarrow> int" where
  "gosiuml_test_state_machine token_alloc value_alloc ctx =
     (case ctx of
        None \<Rightarrow> - 1
      | Some c \<Rightarrow>
          (case gosiuml_create_token token_alloc value_alloc NODE_IDENTITY (Some ''TEST'') of
             None \<Rightarrow> - 1
           | Some t \<Rightarrow>
               let result0 = (if gosiuml_get_state (Some t) \<noteq> STATE_ACTIVE then - 1 else 0);
                   locked_call = gosiuml_transition (Some t) STATE_LOCKED
               in if fst locked_call = 0
                  then (if gosiuml_get_state (snd locked_call) \<noteq> STATE_LOCKED then - 1
                        else result0)
                  else result0))"

section \<open>Floating-point arithmetic of the C code\<close>

text \<open>
  The degradation functions compute in \<open>double\<close> and \<open>float\<close>. A binary format with
  precision \<open>p\<close> is modelled by rounding a non-negative real to the nearest number of
  the format, ties to the even significand, as the default rounding mode does. Below 1
  the exponent is found by doubling, at most \<open>emin\<close> times, so that the grid stops
  refining where the subnormal numbers start; from 1 on it is found by halving.
  Overflow is not modelled: the values rounded here lie between 0 and 1023.
\<close>

definition round_even :: "real \<Rightarrow> int" where
  "round_even x =
     (let f = \<lfloor>x\<rfloor>; r = x - of_int f in
      if r < 1 / 2 then f
      else if 1 / 2 < r then f + 1
      else if even f then f else f + 1)"

fun doublings :: "nat \<Rightarrow> real \<Rightarrow> nat" where
  "doublings 0 x = 0"
| "doublings (Suc n) x = (if x < 1 then Suc (doublings n (2 * x)) else 0)"

fun halvings :: "nat \<Rightarrow> real \<Rightarrow> nat" where
  "halvings 0 x = 0"
| "halvings (Suc n) x = (if 2 \<le> x then Suc (halvings n (x / 2)) else 0)"

definition round_binary :: "nat \<Rightarrow> nat \<Rightarrow> nat \<Rightarrow> real \<Rightarrow> real" where
  "round_binary p emin emax x =
     (if x < 1 then
        let q = 2 ^ (doublings emin x + (p - 1))
        in of_int (round_even (x * q)) / q
      else
        let h = 2 ^ halvings emax x; q = 2 ^ (p - 1)
        in of_int (round_even (x / h * q)) * h / q)"

text \<open>The two formats: 53 and 24 bits of precision.\<close>

definition to_double :: "real \<Rightarrow> real" where
  "to_double x = round_binary 53 1022 1023 x"

definition to_float :: "real \<Rightarrow> real" where
  "to_float x = round_binary 24 126 127 x"

section \<open>Degradation tracker (quick_fix.sh, the generated pheno_state_machine.c)\<close>

text \<open>
  \<open>calculate_degradation_score\<close> divides the score, converted to \<open>double\<close>, by the
  \<open>double\<close> 1023.0 and returns the quotient as a \<open>float\<close>.
\<close>

definition calculate_degradation_score :: "PhenoToken option \<Rightarrow> real" where
  "calculate_degradation_score tok =
     (case tok of
        None \<Rightarrow> 0
      | Some t \<Rightarrow>
          (case tok_value t of
             None \<Rightarrow> 0
           | Some v \<Rightarrow> to_float (to_double (real_of_int (uint (score (metrics v))) / 1023))))"

section \<open>The table-driven state machine (src/cli/cli_parser.c)\<close>

record StateMachine =
  current_state :: int
  token :: "PhenoToken option"
  transition_count :: "32 word"

text \<open>
  \<open>transition_active_to_degraded\<close> compares the \<open>float\<close> score with the \<open>double\<close>
  constant 0.6 and writes the score back through the value pointer; \<open>None\<close> is a NULL
  dereference there. The product written back is taken in \<open>float\<close>, truncated to an
  unsigned integer and stored in the 10-bit field.
\<close>

definition transition_active_to_degraded :: "StateMachine \<Rightarrow> (int \<times> StateMachine) option" where
  "transition_active_to_degraded sm =
     (let degradation = calculate_degradation_score (token sm) in
      if degradation > to_double (6 / 10) then
        (case token sm of
           None \<Rightarrow> None
         | Some t \<Rightarrow>
             (case tok_value t of
                None \<Rightarrow> None
              | Some v \<Rightarrow>
                  Some (STATE_DEGRADED,
                    sm \<lparr> token := Some (t \<lparr> tok_value := Some (v \<lparr> metrics := (metrics v)
                      \<lparr> score := word_of_int \<lfloor>to_float (degradation * 1023)\<rfloor> \<rparr> \<rparr>) \<rparr>) \<rparr>)))
      else Some (STATE_ACTIVE, sm))"

section \<open>Relation block (gosiuml_deprecated/src/pheno_platform..c)\<close>

text \<open>
  A store into an 8-bit field of the relation block keeps the low eight bits of the
  \<open>unsigned int\<close> stored; a load widens the field again.
\<close>

definition store_field :: "32 word \<Rightarrow> 8 word" where
  "store_field v = ucast v"

definition load_field :: "8 word \<Rightarrow> 32 word" where
  "load_field f = ucast f"

text \<open>The rotation macros, applied to a byte promoted to a 32-bit integer.\<close>

definition ROTATE_LEFT :: "8 word \<Rightarrow> nat \<Rightarrow> 32 word" where
  "ROTATE_LEFT n b = push_bit b (ucast n) OR drop_bit (8 - b) (ucast n)"

definition ROTATE_RIGHT :: "8 word \<Rightarrow> nat \<Rightarrow> 32 word" where
  "ROTATE_RIGHT n b = drop_bit b (ucast n) OR push_bit (8 - b) (ucast n)"

text \<open>\<open>BIT_SET\<close> on a field: load, set the bit, store.\<close>

definition BIT_SET :: "8 word \<Rightarrow> nat \<Rightarrow> 8 word" where
  "BIT_SET v b = store_field (load_field v OR push_bit b 1)"

text \<open>The bit-counting loop of \<open>parse_token_file\<close> that fills \<open>class_level\<close>.\<close>

function count_bits :: "32 word \<Rightarrow> 8 word \<Rightarrow> 8 word" where
  "count_bits val lvl =
     (if val = 0 then lvl else count_bits (drop_bit 1 val) (lvl + ucast (val AND 1)))"
  by pat_completeness auto
termination
proof (relation "measure (\<lambda>(val, lvl). unat val)")
  show "wf (measure (\<lambda>(val, lvl). unat val))" by simp
next
  fix val :: "32 word" and lvl :: "8 word"
  assume "val \<noteq> 0"
  then have "0 < unat val" by (simp add: unat_gt_0)
  moreover have "unat (drop_bit 1 val) = unat val div 2"
    unfolding unat_drop_bit_eq by (simp add: drop_bit_eq_div)
  ultimately show "((drop_bit 1 val, lvl + ucast (val AND 1)), (val, lvl))
      \<in> measure (\<lambda>(val, lvl). unat val)"
    by simp
qed

text \<open>
  The relation block that \<open>parse_token_file\<close> builds for the token at index \<open>idx\<close>
  from its type byte and its 32-bit value (the statements after the line is scanned).
\<close>

definition parse_relation :: "8 word \<Rightarrow> 32 word \<Rightarrow> 32 word \<Rightarrow> PhenoRelation" where
  "parse_relation ty val idx =
     \<lparr> subject_id = store_field (ucast ty AND 0xFF),
       subject_type = store_field (drop_bit 0 val AND 0xFF),
       subject_state = store_field (drop_bit 8 val AND 0xFF),
       subject_class = store_field (drop_bit 16 val AND 0xFF),
       class_id = store_field (ROTATE_LEFT ty 3),
       class_category = store_field (ROTATE_RIGHT ty 2),
       class_taxonomy = store_field (ucast ty XOR 0xAA),
       class_level = count_bits val 0,
       instance_id = store_field (idx AND 0xFF),
       instance_type = ty,
       instance_state = BIT_SET (BIT_SET 0 0) 3,
       instance_flags = 0xFF,
       person_id = store_field (drop_bit 24 val AND 0xFF),
       person_role = 0x01,
       person_auth = 0x0F,
       person_state = 0x07 \<rparr>"

text \<open>
  Modelled from the spec: the relation codec's \<open>encode\<close> and \<open>decode\<close> (section 4.1),
  which the sources do not contain; they declare the relation block and fill its fields
  one by one. After the spec, \<open>encode\<close> takes the four groups (subject, class,
  instance, person), each of four sub-field values, truncates each value to its declared
  eight bits and rejects nothing; \<open>decode\<close> returns the four groups of a block. A
  sub-field value arrives as an \<open>unsigned int\<close> and is stored as the code stores fields.
\<close>

type_synonym group = "32 word \<times> 32 word \<times> 32 word \<times> 32 word"

definition encode :: "group \<Rightarrow> group \<Rightarrow> group \<Rightarrow> group \<Rightarrow> PhenoRelation" where
  "encode subject cls instance person =
     (case (subject, cls, instance, person) of
        ((s0, s1, s2, s3), (c0, c1, c2, c3), (i0, i1, i2, i3), (p0, p1, p2, p3)) \<Rightarrow>
          \<lparr> subject_id = store_field s0, subject_type = store_field s1,
            subject_state = store_field s2, subject_class = store_field s3,
            class_id = store_field c0, class_category = store_field c1,
            class_taxonomy = store_field c2, class_level = store_field c3,
            instance_id = store_field i0, instance_type = store_field i1,
            instance_state = store_field i2, instance_flags = store_field i3,
            person_id = store_field p0, person_role = store_field p1,
            person_auth = store_field p2, person_state = store_field p3 \<rparr>)"

definition decode :: "PhenoRelation \<Rightarrow> group \<times> group \<times> group \<times> group" where
  "decode r =
     ((load_field (subject_id r), load_field (subject_type r),
       load_field (subject_state r), load_field (subject_class r)),
      (load_field (class_id r), load_field (class_category r),
       load_field (class_taxonomy r), load_field (class_level r)),
      (load_field (instance_id r), load_field (instance_type r),
       load_field (instance_state r), load_field (instance_flags r)),
      (load_field (person_id r), load_field (person_role r),
       load_field (person_auth r), load_field (person_state r)))"

text \<open>A group fits when each sub-field value is below 256; masking keeps the low byte.\<close>

definition fits :: "group \<Rightarrow> bool" where
  "fits g = (case g of (a, b, c, d) \<Rightarrow> a \<le> 0xFF \<and> b \<le> 0xFF \<and> c \<le> 0xFF \<and> d \<le> 0xFF)"

definition masked :: "group \<Rightarrow> group" where
  "masked g = (case g of (a, b, c, d) \<Rightarrow> (a AND 0xFF, b AND 0xFF, c AND 0xFF, d AND 0xFF))"

section \<open>Hybrid index (specification, section 4.3)\<close>

text \<open>
  Modelled from the spec: the ordered view of the hybrid index. The sources hold no
  insert or remove of the index, only the navigation links and the balance factor of the
  token record and a note that sketches the left-heavy rotation choice. After the spec,
  a key is raw bytes and keys are ordered byte by byte, lexicographically.
\<close>

type_synonym key = "8 word list"

datatype key_order = LT | EQ | GT

fun compare_keys :: "key \<Rightarrow> key \<Rightarrow> key_order" where
  "compare_keys [] [] = EQ"
| "compare_keys [] (y # ys) = LT"
| "compare_keys (x # xs) [] = GT"
| "compare_keys (x # xs) (y # ys) =
     (if x < y then LT else if y < x then GT else compare_keys xs ys)"

text \<open>
  Modelled from the spec: a node of the ordered view holds its left subtree, its key,
  its token, its balance factor (the signed height difference, left minus right) and
  its right subtree.
\<close>

datatype 'v ordered_view =
  Leaf
| Node "'v ordered_view" key 'v int "'v ordered_view"

text \<open>
  Modelled from the spec: the height that the balance factor compares. The header
  declares \<open>get_height\<close>; its only body in the sources is a stub that answers 1 for
  every node and 0 for NULL, and nothing calls it. The height here is the height of the
  subtree, as the balance invariant of the spec needs it.
\<close>

fun height :: "'v ordered_view \<Rightarrow> nat" where
  "height Leaf = 0"
| "height (Node l k v b r) = Suc (max (height l) (height r))"

text \<open>Modelled from the spec: a node is built with the balance factor of its subtrees.\<close>

definition node :: "'v ordered_view \<Rightarrow> key \<Rightarrow> 'v \<Rightarrow> 'v ordered_view \<Rightarrow> 'v ordered_view" where
  "node l k v r = Node l k v (int (height l) - int (height r)) r"

text \<open>Modelled from the spec: the two classic single rotations.\<close>

fun rotate_right :: "'v ordered_view \<Rightarrow> 'v ordered_view" where
  "rotate_right (Node (Node ll lk lv lb lr) k v b r) = node ll lk lv (node lr k v r)"
| "rotate_right t = t"

fun rotate_left :: "'v ordered_view \<Rightarrow> 'v ordered_view" where
  "rotate_left (Node l k v b (Node rl rk rv rb rr)) = node (node l k v rl) rk rv rr"
| "rotate_left t = t"

text \<open>
  Modelled from the spec: the rotation is selected by the balance factors of a node and
  of its heavier child. A factor above 1 is left-heavy: a left child with a negative
  factor is rotated left first (left-right), then the node is rotated right. A factor
  below -1 is the mirror image.
\<close>

definition rebalance ::
    "'v ordered_view \<Rightarrow> key \<Rightarrow> 'v \<Rightarrow> 'v ordered_view \<Rightarrow> 'v ordered_view" where
  "rebalance l k v r =
     (let b = int (height l) - int (height r) in
      if b > 1 then
        (case l of
           Leaf \<Rightarrow> node l k v r
         | Node ll lk lv lb lr \<Rightarrow>
             if lb < 0 then rotate_right (node (rotate_left l) k v r)
             else rotate_right (node l k v r))
      else if b < - 1 then
        (case r of
           Leaf \<Rightarrow> node l k v r
         | Node rl rk rv rb rr \<Rightarrow>
             if rb > 0 then rotate_left (node l k v (rotate_right r))
             else rotate_left (node l k v r))
      else node l k v r)"

text \<open>
  Modelled from the spec: insertion into the ordered view, rebalancing on the way back
  to the root. An equal key leaves the tree as it is; the index rejects it beforehand.
\<close>

fun tree_insert :: "key \<Rightarrow> 'v \<Rightarrow> 'v ordered_view \<Rightarrow> 'v ordered_view" where
  "tree_insert x v Leaf = node Leaf x v Leaf"
| "tree_insert x v (Node l k w b r) =
     (case compare_keys x k of
        LT \<Rightarrow> rebalance (tree_insert x v l) k w r
      | GT \<Rightarrow> rebalance l k w (tree_insert x v r)
      | EQ \<Rightarrow> Node l k w b r)"

text \<open>
  Modelled from the spec: removal from the ordered view. A node with a right subtree is
  replaced by the least entry of that subtree; every node on the way back is rebalanced.
\<close>

fun take_min ::
    "'v ordered_view \<Rightarrow> key \<Rightarrow> 'v \<Rightarrow> 'v ordered_view \<Rightarrow> key \<times> 'v \<times> 'v ordered_view" where
  "take_min Leaf k v r = (k, v, r)"
| "take_min (Node ll lk lv lb lr) k v r =
     (case take_min ll lk lv lr of (mk, mv, l') \<Rightarrow> (mk, mv, rebalance l' k v r))"

fun tree_delete :: "key \<Rightarrow> 'v ordered_view \<Rightarrow> 'v ordered_view" where
  "tree_delete x Leaf = Leaf"
| "tree_delete x (Node l k v b r) =
     (case compare_keys x k of
        LT \<Rightarrow> rebalance (tree_delete x l) k v r
      | GT \<Rightarrow> rebalance l k v (tree_delete x r)
      | EQ \<Rightarrow>
          (case r of
             Leaf \<Rightarrow> l
           | Node rl rk rv rb rr \<Rightarrow>
               (case take_min rl rk rv rr of (mk, mv, r') \<Rightarrow> rebalance l mk mv r')))"

text \<open>Modelled from the spec: the ordered lookup that the index falls back on.\<close>

fun tree_search :: "'v ordered_view \<Rightarrow> key \<Rightarrow> 'v option" where
  "tree_search Leaf x = None"
| "tree_search (Node l k v b r) x =
     (case compare_keys x k of
        LT \<Rightarrow> tree_search l x
      | GT \<Rightarrow> tree_search r x
      | EQ \<Rightarrow> Some v)"

text \<open>
  Modelled from the spec: the hybrid index, an ordered view and a hash table of a fixed
  number of chains over the same entries. The lookup table of the lexer notes has 1024
  buckets and takes the hash of a key modulo 1024; the hash function itself is defined
  nowhere and is a parameter.
\<close>

definition bucket_count :: nat where "bucket_count = 1024"

record 'v hybrid_index =
  ordered :: "'v ordered_view"
  hash_buckets :: "nat \<Rightarrow> (key \<times> 'v) list"

definition empty_index :: "'v hybrid_index" where
  "empty_index = \<lparr> ordered = Leaf, hash_buckets = (\<lambda>i. []) \<rparr>"

text \<open>
  Modelled from the spec: lookup probes the chain of the key's bucket first and falls
  back on the ordered view.
\<close>

definition index_lookup :: "(key \<Rightarrow> nat) \<Rightarrow> 'v hybrid_index \<Rightarrow> key \<Rightarrow> 'v option" where
  "index_lookup hash_function idx k =
     (case map_of (hash_buckets idx (hash_function k mod bucket_count)) k of
        Some v \<Rightarrow> Some v
      | None \<Rightarrow> tree_search (ordered idx) k)"

datatype index_error = DuplicateKey | NotFound

text \<open>
  Modelled from the spec: insert rejects a key that is present and otherwise enters the
  token in both views; remove rejects a key that is absent and otherwise takes the entry
  out of both views.
\<close>

definition index_insert ::
    "(key \<Rightarrow> nat) \<Rightarrow> 'v hybrid_index \<Rightarrow> key \<Rightarrow> 'v \<Rightarrow> index_error + 'v hybrid_index" where
  "index_insert hash_function idx k v =
     (if index_lookup hash_function idx k \<noteq> None then Inl DuplicateKey
      else
        let slot = hash_function k mod bucket_count in
        Inr \<lparr> ordered = tree_insert k v (ordered idx),
              hash_buckets = (hash_buckets idx) (slot := (k, v) # hash_buckets idx slot) \<rparr>)"

definition index_remove ::
    "(key \<Rightarrow> nat) \<Rightarrow> 'v hybrid_index \<Rightarrow> key \<Rightarrow> index_error + 'v hybrid_index" where
  "index_remove hash_function idx k =
     (if index_lookup hash_function idx k = None then Inl NotFound
      else
        let slot = hash_function k mod bucket_count in
        Inr \<lparr> ordered = tree_delete k (ordered idx),
              hash_buckets = (hash_buckets idx)
                (slot := filter (\<lambda>e. fst e \<noteq> k) (hash_buckets idx slot)) \<rparr>)"

text \<open>
  Modelled from the spec: a sequence of operations on the index. A rejected operation
  returns its error and leaves the index as it was.
\<close>

datatype 'v operation = Insert key 'v | Remove key

fun apply_operation ::
    "(key \<Rightarrow> nat) \<Rightarrow> 'v hybrid_index \<Rightarrow> 'v operation \<Rightarrow> 'v hybrid_index" where
  "apply_operation hash_function idx (Insert k v) =
     (case index_insert hash_function idx k v of Inl e \<Rightarrow> idx | Inr idx' \<Rightarrow> idx')"
| "apply_operation hash_function idx (Remove k) =
     (case index_remove hash_function idx k of Inl e \<Rightarrow> idx | Inr idx' \<Rightarrow> idx')"

fun run_operations ::
    "(key \<Rightarrow> nat) \<Rightarrow> 'v hybrid_index \<Rightarrow> 'v operation list \<Rightarrow> 'v hybrid_index" where
  "run_operations hash_function idx [] = idx"
| "run_operations hash_function idx (p # ps) =
     run_operations hash_function (apply_operation hash_function idx p) ps"

text \<open>
  Modelled from the spec: the balance invariant of the ordered view (section 3). Every
  stored balance factor is the height of the left subtree minus the height of the right
  one, and is -1, 0 or 1. Then the factors of a view, in order.
\<close>

fun balanced :: "'v ordered_view \<Rightarrow> bool" where
  "balanced Leaf = True"
| "balanced (Node l k v b r) =
     (b = int (height l) - int (height r) \<and> (b = - 1 \<or> b = 0 \<or> b = 1)
      \<and> balanced l \<and> balanced r)"


text \<open>A hash function and key sequences for the examples: one-byte keys.\<close>

definition first_byte :: "key \<Rightarrow> nat" where
  "first_byte k = (case k of [] \<Rightarrow> 0 | b # bs \<Rightarrow> unat b)"

definition insert_keys :: "8 word list \<Rightarrow> unit operation list" where
  "insert_keys bs = map (\<lambda>b. Insert [b] ()) bs"

section \<open>Tokens used as examples\<close>

definition active_token :: PhenoToken where
  "active_token =
     zero_token \<lparr> tok_value := Some zero_value,
                  mem_flags := zero_flags \<lparr> allocated := 1, ref_count := 1 \<rparr> \<rparr>"

definition locked_token :: PhenoToken where
  "locked_token =
     zero_token \<lparr> tok_value := Some zero_value,
                  mem_flags := zero_flags \<lparr> allocated := 1, locked := 1, ref_count := 1 \<rparr> \<rparr>"

definition with_score :: "10 word \<Rightarrow> PhenoToken \<Rightarrow> PhenoToken" where
  "with_score s t =
     t \<lparr> tok_value := Some (zero_value \<lparr> metrics := (metrics zero_value) \<lparr> score := s \<rparr> \<rparr>) \<rparr>"

definition with_ref_count :: "8 word \<Rightarrow> PhenoToken \<Rightarrow> PhenoToken" where
  "with_ref_count n t = t \<lparr> mem_flags := (mem_flags t) \<lparr> ref_count := n \<rparr> \<rparr>"

definition shared_degraded_token :: PhenoToken where
  "shared_degraded_token =
     with_score 700
       (zero_token \<lparr> mem_flags := zero_flags \<lparr> allocated := 1, shared := 1, ref_count := 1 \<rparr> \<rparr>)"

definition machine_on :: "PhenoToken \<Rightarrow> StateMachine" where
  "machine_on t = \<lparr> current_state = STATE_ALLOCATED, token = Some t, transition_count = 0 \<rparr>"

text \<open>
  The legal-edge table as the specification words it (section 4.4), to compare with
  what \<open>gosiuml_transition\<close> accepts.
\<close>

definition spec_legal_edge :: "int \<Rightarrow> int \<Rightarrow> bool" where
  "spec_legal_edge s x \<longleftrightarrow>
     (s = STATE_NIL \<and> x = STATE_ALLOCATED) \<or>
     (s = STATE_ALLOCATED \<and> x = STATE_LOCKED) \<or>
     (s = STATE_LOCKED \<and> x = STATE_ACTIVE) \<or>
     (s = STATE_ACTIVE \<and> x = STATE_DEGRADED) \<or>
     (s = STATE_ACTIVE \<and> x = STATE_LOCKED) \<or>
     (s = STATE_DEGRADED \<and> x = STATE_LOCKED) \<or>
     (s \<noteq> STATE_FREED \<and> x = STATE_FREED)"


section \<open>Properties of the state query\<close>

lemmas state_defs =
  STATE_NIL_def STATE_ALLOCATED_def STATE_LOCKED_def STATE_ACTIVE_def
  STATE_DEGRADED_def STATE_SHARED_def STATE_FREED_def

lemma get_state_range:
  "gosiuml_get_state tok \<in>
     {STATE_NIL, STATE_LOCKED, STATE_SHARED, STATE_DEGRADED, STATE_ACTIVE}"
  by (simp add: gosiuml_get_state_def split: option.split)

lemma get_state_not_allocated: "gosiuml_get_state tok \<noteq> STATE_ALLOCATED"
  by (simp add: gosiuml_get_state_def state_defs split: option.split)

lemma get_state_not_freed: "gosiuml_get_state tok \<noteq> STATE_FREED"
  by (simp add: gosiuml_get_state_def state_defs split: option.split)

lemma get_state_locked_token: "gosiuml_get_state (Some locked_token) = STATE_LOCKED"
  by (simp add: gosiuml_get_state_def locked_token_def zero_token_def zero_flags_def)

lemma get_state_active_token: "gosiuml_get_state (Some active_token) = STATE_ACTIVE"
  by (simp add: gosiuml_get_state_def active_token_def zero_token_def zero_flags_def
      zero_value_def)

text \<open>
  C9. The state query is total and answers only NIL, LOCKED, SHARED, DEGRADED or ACTIVE,
  never ALLOCATED or FREED. A NULL token and a token whose allocated flag is 0 are NIL;
  a locked token is LOCKED whatever its shared flag; an unlocked shared token is SHARED
  whatever its score.
\<close>

theorem get_state_total_precedence:
  "gosiuml_get_state tok \<in>
      {STATE_NIL, STATE_LOCKED, STATE_SHARED, STATE_DEGRADED, STATE_ACTIVE}
   \<and> gosiuml_get_state tok \<noteq> STATE_ALLOCATED
   \<and> gosiuml_get_state tok \<noteq> STATE_FREED
   \<and> gosiuml_get_state None = STATE_NIL
   \<and> (allocated (mem_flags t0) = 0 \<longrightarrow> gosiuml_get_state (Some t0) = STATE_NIL)
   \<and> (allocated (mem_flags t1) \<noteq> 0 \<and> locked (mem_flags t1) \<noteq> 0
        \<longrightarrow> gosiuml_get_state (Some t1) = STATE_LOCKED)
   \<and> (allocated (mem_flags t2) \<noteq> 0 \<and> locked (mem_flags t2) = 0
        \<and> shared (mem_flags t2) \<noteq> 0
        \<longrightarrow> gosiuml_get_state (Some t2) = STATE_SHARED)"
  using get_state_range [of tok] get_state_not_allocated [of tok]
    get_state_not_freed [of tok]
  by (simp add: gosiuml_get_state_def)

text \<open>
  The precedences at work: a zeroed token, a locked token, and a shared token whose
  score of 700 would otherwise make it DEGRADED.
\<close>

theorem get_state_total_precedence_witness:
  "allocated (mem_flags zero_token) = 0
   \<and> gosiuml_get_state (Some zero_token) = STATE_NIL
   \<and> shared (mem_flags locked_token) = 0 \<and> locked (mem_flags locked_token) \<noteq> 0
   \<and> gosiuml_get_state (Some locked_token) = STATE_LOCKED
   \<and> shared (mem_flags shared_degraded_token) \<noteq> 0
   \<and> (\<exists>v. tok_value shared_degraded_token = Some v \<and> 600 < uint (score (metrics v)))
   \<and> gosiuml_get_state (Some shared_degraded_token) = STATE_SHARED"
proof -
  have h0: "allocated (mem_flags zero_token) = 0"
    by (simp add: zero_token_def zero_flags_def)
  have h1: "allocated (mem_flags locked_token) \<noteq> 0 \<and> locked (mem_flags locked_token) \<noteq> 0"
    by (simp add: locked_token_def zero_flags_def)
  have h2: "allocated (mem_flags shared_degraded_token) \<noteq> 0
      \<and> locked (mem_flags shared_degraded_token) = 0
      \<and> shared (mem_flags shared_degraded_token) \<noteq> 0"
    by (simp add: shared_degraded_token_def with_score_def zero_flags_def)
  have e: "shared (mem_flags locked_token) = 0
      \<and> (\<exists>v. tok_value shared_degraded_token = Some v \<and> 600 < uint (score (metrics v)))"
    by (simp add: locked_token_def shared_degraded_token_def with_score_def zero_flags_def)
  from get_state_total_precedence [of None zero_token locked_token shared_degraded_token]
    h0 h1 h2 e
  show ?thesis by blast
qed

section \<open>Properties of the transition function\<close>

text \<open>
  C10. On every non-NULL token, whatever its state, a transition to FREED returns 0 and
  clears the allocated and locked flags and nothing else: the other flags, the
  reference count, the value pointer and the navigation links are as before.
\<close>

theorem transition_freed_frame:
  "\<exists>t'. gosiuml_transition (Some t) STATE_FREED = (0, Some t')
      \<and> mem_flags t' = (mem_flags t) \<lparr> allocated := 0, locked := 0 \<rparr>
      \<and> t' \<lparr> mem_flags := mem_flags t \<rparr> = t
      \<and> ref_count (mem_flags t') = ref_count (mem_flags t)
      \<and> shared (mem_flags t') = shared (mem_flags t)
      \<and> dirty (mem_flags t') = dirty (mem_flags t)
      \<and> pinned (mem_flags t') = pinned (mem_flags t)
      \<and> tok_value t' = tok_value t
      \<and> left t' = left t \<and> right t' = right t \<and> parent t' = parent t"
  by (simp add: gosiuml_transition_def state_defs)

text \<open>
  C1, as the code has it. A transition to X succeeds exactly when X is ALLOCATED and the
  state query answers NIL, or X is LOCKED and it answers ACTIVE (the guard also admits
  ALLOCATED, which the query never answers), or X is FREED. Every other request returns
  -1 and leaves the token as it was; a NULL token returns -1.
\<close>

theorem transition_succeeds_iff:
  "(fst (gosiuml_transition (Some t) x) = 0 \<longleftrightarrow>
      (x = STATE_ALLOCATED \<and> gosiuml_get_state (Some t) = STATE_NIL) \<or>
      (x = STATE_LOCKED \<and> gosiuml_get_state (Some t) = STATE_ACTIVE) \<or>
      x = STATE_FREED)
   \<and> (fst (gosiuml_transition (Some t) x) \<noteq> 0 \<longrightarrow>
        gosiuml_transition (Some t) x = (- 1, Some t))
   \<and> gosiuml_transition None x = (- 1, None)"
  using get_state_not_allocated [of "Some t"]
  by (auto simp add: gosiuml_transition_def Let_def state_defs)

theorem transition_succeeds_iff_witness:
  "fst (gosiuml_transition (Some active_token) STATE_DEGRADED) \<noteq> 0
   \<and> gosiuml_transition (Some active_token) STATE_DEGRADED = (- 1, Some active_token)"
proof -
  have "fst (gosiuml_transition (Some active_token) STATE_DEGRADED) \<noteq> 0"
    by (simp add: gosiuml_transition_def state_defs)
  with transition_succeeds_iff [of active_token STATE_DEGRADED] show ?thesis by blast
qed

text \<open>
  The specification's table has the edge from LOCKED to ACTIVE; the transition function
  rejects it on a locked token.
\<close>

theorem transition_locked_to_active_rejected:
  "spec_legal_edge (gosiuml_get_state (Some locked_token)) STATE_ACTIVE
   \<and> gosiuml_transition (Some locked_token) STATE_ACTIVE = (- 1, Some locked_token)"
  by (simp add: get_state_locked_token spec_legal_edge_def gosiuml_transition_def state_defs)

text \<open>So it does the edge from DEGRADED to LOCKED, on a token with a score of 700.\<close>

lemma degraded_to_locked_rejected:
  "gosiuml_get_state (Some (with_score 700 active_token)) = STATE_DEGRADED
   \<and> gosiuml_transition (Some (with_score 700 active_token)) STATE_LOCKED
       = (- 1, Some (with_score 700 active_token))"
  by (simp add: gosiuml_transition_def gosiuml_get_state_def Let_def state_defs
      with_score_def active_token_def zero_flags_def)

section \<open>Token creation\<close>

lemma create_token_result:
  "gosiuml_create_token True value_alloc ty name =
     Some (zero_token
        \<lparr> token_type := ty,
          token_name := (case name of None \<Rightarrow> []
                         | Some n \<Rightarrow> take 63 (takeWhile (\<lambda>c. c \<noteq> CHR 0x00) n)),
          tok_value := (if value_alloc then Some zero_value else None),
          mem_flags := zero_flags \<lparr> allocated := 1, ref_count := 1 \<rparr> \<rparr>)"
  by (simp add: gosiuml_create_token_def)

lemma get_state_created:
  "gosiuml_get_state (gosiuml_create_token True value_alloc ty name) = STATE_ACTIVE"
  by (simp add: create_token_result gosiuml_get_state_def zero_flags_def zero_value_def)

text \<open>The library's own test expects ACTIVE right after creation, and passes.\<close>

lemma test_state_machine_passes:
  "gosiuml_test_state_machine True value_alloc (Some ctx) = 0"
  by (simp add: gosiuml_test_state_machine_def create_token_result gosiuml_get_state_def
      gosiuml_transition_def Let_def zero_flags_def zero_value_def state_defs)

text \<open>
  C2, as the code has it. For every type tag and name, when the token record can be
  allocated, creation returns a token whose allocated flag is 1 and whose reference
  count is 1, and the state query right after creation answers ACTIVE. When the record
  cannot be allocated, creation returns NULL.
\<close>

theorem create_token_flags_and_state:
  "gosiuml_create_token False value_alloc ty name = None
   \<and> (\<exists>t. gosiuml_create_token True value_alloc ty name = Some t
        \<and> allocated (mem_flags t) = 1
        \<and> ref_count (mem_flags t) = 1
        \<and> locked (mem_flags t) = 0
        \<and> token_type t = ty
        \<and> gosiuml_get_state (Some t) = STATE_ACTIVE)"
  using get_state_created [of value_alloc ty name]
  by (simp add: gosiuml_create_token_def zero_flags_def)

text \<open>The state right after creation is not ALLOCATED.\<close>

theorem created_token_reports_active:
  "gosiuml_get_state (gosiuml_create_token True True NODE_IDENTITY (Some ''TEST''))
     = STATE_ACTIVE
   \<and> STATE_ACTIVE \<noteq> STATE_ALLOCATED"
  by (simp add: get_state_created state_defs)

section \<open>Token release\<close>

text \<open>
  C7, as the code has it. Release takes no account of the reference count and reports
  nothing: a NULL token leaves the heap as it is; any other token is gone from the heap
  afterwards, with the same outcome as for a reference count of 0, and no other token
  is touched.
\<close>

theorem free_token_unconditional:
  "gosiuml_free_token heap None = heap
   \<and> gosiuml_free_token (heap (p \<mapsto> t)) (Some p) p = None
   \<and> gosiuml_free_token (heap (p \<mapsto> t)) (Some p)
       = gosiuml_free_token (heap (p \<mapsto> with_ref_count 0 t)) (Some p)
   \<and> dom (gosiuml_free_token heap (Some p)) = dom heap - {p}"
  by (simp add: gosiuml_free_token_def)

text \<open>A token with reference count 2 is released like any other.\<close>

theorem free_token_ref_count_two:
  "ref_count (mem_flags (with_ref_count 2 active_token)) = 2
   \<and> gosiuml_free_token (Map.empty (0 \<mapsto> with_ref_count 2 active_token)) (Some 0) 0 = None"
  by (simp add: gosiuml_free_token_def with_ref_count_def)

section \<open>Rounding\<close>

text \<open>The exponent searches, in a form that evaluates at a numeral.\<close>

lemma doublings_unfold:
  "doublings n x = (if n = 0 \<or> 1 \<le> x then 0 else Suc (doublings (n - 1) (2 * x)))"
  by (cases n) auto

lemma halvings_unfold:
  "halvings n x = (if n = 0 \<or> x < 2 then 0 else Suc (halvings (n - 1) (x / 2)))"
  by (cases n) auto

lemma round_even_le: "x \<le> of_int n \<Longrightarrow> round_even x \<le> n"
  unfolding round_even_def Let_def by (auto; linarith)

lemma round_even_ge: "of_int n \<le> x \<Longrightarrow> n \<le> round_even x"
  unfolding round_even_def Let_def by (auto; linarith)

lemma round_even_error: "\<bar>of_int (round_even x) - x\<bar> \<le> 1 / 2"
  unfolding round_even_def Let_def by (auto; linarith)

lemma grid_round_unit:
  assumes "0 \<le> x" and "x \<le> 1"
  shows "0 \<le> real_of_int (round_even (x * 2 ^ e)) / 2 ^ e
     \<and> real_of_int (round_even (x * 2 ^ e)) / 2 ^ e \<le> 1"
proof -
  have "of_int 0 \<le> x * 2 ^ e" using assms by simp
  then have lo: "0 \<le> round_even (x * 2 ^ e)" by (rule round_even_ge)
  have "x * 2 ^ e \<le> of_int (2 ^ e)"
    using assms by (simp add: mult_left_le_one_le)
  then have "round_even (x * 2 ^ e) \<le> 2 ^ e" by (rule round_even_le)
  then have "real_of_int (round_even (x * 2 ^ e)) \<le> real_of_int (2 ^ e)"
    by (simp only: of_int_le_iff)
  then have hi: "real_of_int (round_even (x * 2 ^ e)) \<le> 2 ^ e" by simp
  from lo hi show ?thesis by (simp add: divide_le_eq)
qed

lemma grid_round_error:
  "\<bar>real_of_int (round_even (x * 2 ^ e)) / 2 ^ e - x\<bar> \<le> 1 / (2 * 2 ^ e)"
proof -
  have "\<bar>real_of_int (round_even (x * 2 ^ e)) - x * 2 ^ e\<bar> \<le> 1 / 2"
    by (rule round_even_error)
  then have "\<bar>real_of_int (round_even (x * 2 ^ e)) - x * 2 ^ e\<bar> / 2 ^ e \<le> (1 / 2) / 2 ^ e"
    by (rule divide_right_mono) simp
  moreover have "real_of_int (round_even (x * 2 ^ e)) / 2 ^ e - x
      = (real_of_int (round_even (x * 2 ^ e)) - x * 2 ^ e) / 2 ^ e"
    by (simp add: field_simps)
  then have "\<bar>real_of_int (round_even (x * 2 ^ e)) / 2 ^ e - x\<bar>
      = \<bar>real_of_int (round_even (x * 2 ^ e)) - x * 2 ^ e\<bar> / 2 ^ e"
    by (simp only: abs_divide) simp
  ultimately show ?thesis by simp
qed

lemma round_binary_one: "round_binary p emin emax 1 = 1"
proof -
  have h: "halvings emax 1 = 0" by (cases emax) simp_all
  have "round_even (2 ^ (p - 1)) = 2 ^ (p - 1)"
    using round_even_le [of "2 ^ (p - 1)" "2 ^ (p - 1)"]
      round_even_ge [of "2 ^ (p - 1)" "2 ^ (p - 1)"] by simp
  then show ?thesis by (simp add: round_binary_def Let_def h)
qed

lemma round_binary_below_one:
  "x < 1 \<Longrightarrow> round_binary p emin emax x
     = real_of_int (round_even (x * 2 ^ (doublings emin x + (p - 1))))
         / 2 ^ (doublings emin x + (p - 1))"
  by (simp add: round_binary_def Let_def)

text \<open>Rounding keeps a value of the unit interval inside it, and moves it little.\<close>

lemma round_binary_unit:
  assumes "0 \<le> x" and "x \<le> 1"
  shows "0 \<le> round_binary p emin emax x \<and> round_binary p emin emax x \<le> 1"
proof (cases "x < 1")
  case True
  from grid_round_unit [OF assms] show ?thesis
    by (simp only: round_binary_below_one [OF True])
next
  case False
  with assms have "x = 1" by simp
  then show ?thesis by (simp add: round_binary_one)
qed

lemma round_binary_error:
  assumes "0 \<le> x" and "x \<le> 1" and "0 < p"
  shows "\<bar>round_binary p emin emax x - x\<bar> \<le> 1 / 2 ^ p"
proof (cases "x < 1")
  case True
  define e where "e = doublings emin x + (p - 1)"
  have "\<bar>round_binary p emin emax x - x\<bar> \<le> 1 / (2 * 2 ^ e)"
    unfolding e_def round_binary_below_one [OF True] by (rule grid_round_error)
  also have "2 * (2::real) ^ e = 2 ^ (Suc e)" by simp
  also have "1 / (2::real) ^ (Suc e) \<le> 1 / 2 ^ p"
  proof -
    have "p \<le> Suc e" using assms(3) by (simp add: e_def)
    then have "(2::real) ^ p \<le> 2 ^ (Suc e)" by (simp only: power_increasing one_le_numeral)
    then show ?thesis by (simp add: frac_le)
  qed
  finally show ?thesis .
next
  case False
  with assms have "x = 1" by simp
  then show ?thesis by (simp add: round_binary_one)
qed

lemma narrowed_unit:
  assumes "0 \<le> x" and "x \<le> 1"
  shows "0 \<le> to_float (to_double x) \<and> to_float (to_double x) \<le> 1"
proof -
  from round_binary_unit [OF assms] have "0 \<le> to_double x" and "to_double x \<le> 1"
    by (simp_all add: to_double_def)
  then show ?thesis unfolding to_float_def by (rule round_binary_unit)
qed

lemma narrowed_error:
  assumes "0 \<le> x" and "x \<le> 1"
  shows "\<bar>to_float (to_double x) - x\<bar> \<le> 1 / 2 ^ 23"
proof -
  from round_binary_unit [OF assms] have d: "0 \<le> to_double x" "to_double x \<le> 1"
    by (simp_all add: to_double_def)
  have "\<bar>to_double x - x\<bar> \<le> 1 / 2 ^ 53"
    unfolding to_double_def by (rule round_binary_error [OF assms]) simp
  moreover have "\<bar>to_float (to_double x) - to_double x\<bar> \<le> 1 / 2 ^ 24"
    unfolding to_float_def by (rule round_binary_error [OF d]) simp
  ultimately have "\<bar>to_float (to_double x) - x\<bar> \<le> 1 / 2 ^ 53 + 1 / 2 ^ 24"
    by linarith
  also have "(1::real) / 2 ^ 53 + 1 / 2 ^ 24 \<le> 1 / 2 ^ 23" by simp
  finally show ?thesis .
qed

lemma narrowed_between:
  assumes "0 \<le> x" and "x \<le> 1"
  shows "x - 1 / 8388608 \<le> to_float (to_double x)"
    and "to_float (to_double x) \<le> x + 1 / 8388608"
proof -
  have "(2::real) ^ 23 = 8388608" by simp
  with narrowed_error [OF assms]
  have "\<bar>to_float (to_double x) - x\<bar> \<le> 1 / 8388608" by (simp only:)
  then show "x - 1 / 8388608 \<le> to_float (to_double x)"
    and "to_float (to_double x) \<le> x + 1 / 8388608"
    by linarith+
qed

text \<open>The \<open>double\<close> constant 0.6 of the comparison.\<close>

lemma threshold_exact:
  "to_double (6 / 10) = 5404319552844595 / 9007199254740992"
  "to_double (3 / 5) = 5404319552844595 / 9007199254740992"
  by (simp_all add: to_double_def round_binary_def round_even_def Let_def doublings_unfold)

section \<open>Degradation score\<close>

lemma score_le_1023: "uint (w :: 10 word) \<le> 1023"
  using uint_lt2p [of w] by simp

lemma score_quotient_unit:
  "0 \<le> real_of_int (uint (w :: 10 word)) / 1023 \<and> real_of_int (uint w) / 1023 \<le> 1"
proof -
  have "real_of_int 0 \<le> real_of_int (uint w)" and "real_of_int (uint w) \<le> real_of_int 1023"
    using score_le_1023 [of w] by (simp_all only: of_int_le_iff uint_ge_0)
  then show ?thesis by simp
qed

lemma degradation_score_bounds:
  "0 \<le> calculate_degradation_score tok \<and> calculate_degradation_score tok \<le> 1"
proof (cases tok)
  case None
  then show ?thesis by (simp add: calculate_degradation_score_def)
next
  case (Some t)
  show ?thesis
  proof (cases "tok_value t")
    case None
    with Some show ?thesis by (simp add: calculate_degradation_score_def)
  next
    case (Some v)
    from score_quotient_unit [of "score (metrics v)"]
    have "0 \<le> to_float (to_double (real_of_int (uint (score (metrics v))) / 1023))
        \<and> to_float (to_double (real_of_int (uint (score (metrics v))) / 1023)) \<le> 1"
      by (intro narrowed_unit) simp_all
    with Some \<open>tok = Some t\<close> show ?thesis
      by (simp add: calculate_degradation_score_def del: of_int_uint)
  qed
qed

lemma degradation_score_close:
  "\<bar>calculate_degradation_score (Some (t \<lparr> tok_value := Some v \<rparr>))
      - real_of_int (uint (score (metrics v))) / 1023\<bar> \<le> 1 / 2 ^ 23"
proof -
  from score_quotient_unit [of "score (metrics v)"]
  have "\<bar>to_float (to_double (real_of_int (uint (score (metrics v))) / 1023))
        - real_of_int (uint (score (metrics v))) / 1023\<bar> \<le> 1 / 2 ^ 23"
    by (intro narrowed_error) simp_all
  then show ?thesis
    by (simp add: calculate_degradation_score_def del: of_int_uint)
qed

text \<open>
  The value returned for a score of 341 is the \<open>float\<close> nearest to a third, not a
  third: the quotient is rounded.
\<close>

lemma degradation_score_at_341:
  "calculate_degradation_score (Some (with_score 341 active_token)) = 11184811 / 33554432"
  by (simp add: calculate_degradation_score_def with_score_def to_float_def to_double_def
      round_binary_def round_even_def Let_def doublings_unfold)

text \<open>
  C4. The degradation score of every token lies between 0 and 1. It is 0 when the token
  or its value is NULL. For a token with a value it is the quotient of the stored score
  by 1023 as the C code computes it, divided in \<open>double\<close> and returned as \<open>float\<close>, and so
  within 2 to the power -23 of the exact quotient.
\<close>

theorem degradation_score_value:
  "0 \<le> calculate_degradation_score tok
   \<and> calculate_degradation_score tok \<le> 1
   \<and> calculate_degradation_score None = 0
   \<and> calculate_degradation_score (Some (t \<lparr> tok_value := None \<rparr>)) = 0
   \<and> calculate_degradation_score (Some (t \<lparr> tok_value := Some v \<rparr>))
        = to_float (to_double (real_of_int (uint (score (metrics v))) / 1023))
   \<and> \<bar>calculate_degradation_score (Some (t \<lparr> tok_value := Some v \<rparr>))
        - real_of_int (uint (score (metrics v))) / 1023\<bar> \<le> 1 / 2 ^ 23"
  using degradation_score_bounds [of tok] degradation_score_close [where t = t and v = v]
  by (simp add: calculate_degradation_score_def)

section \<open>The two degradation thresholds\<close>

lemma threshold_positive: "0 \<le> to_double (6 / 10)"
  by (simp add: threshold_exact)

lemma degraded_transition_total: "transition_active_to_degraded sm \<noteq> None"
  using threshold_positive
  by (auto simp add: transition_active_to_degraded_def calculate_degradation_score_def Let_def
      split: option.split)

lemma degraded_transition_iff:
  "(\<exists>sm'. transition_active_to_degraded sm = Some (STATE_DEGRADED, sm'))
     \<longleftrightarrow> calculate_degradation_score (token sm) > to_double (6 / 10)"
  using threshold_positive
  by (auto simp add: transition_active_to_degraded_def calculate_degradation_score_def Let_def
      state_defs split: option.split)

lemma float_threshold:
  assumes "0 \<le> n" and "n \<le> 1023"
  shows "(to_double (6 / 10) < to_float (to_double (real_of_int n / 1023))) = (614 \<le> n)"
proof -
  define x where "x = real_of_int n / 1023"
  have u: "0 \<le> x" "x \<le> 1"
    using assms by (simp_all add: x_def)
  note b = narrowed_between [OF u]
  have "(5404319552844595 / 9007199254740992 < to_float (to_double x)) = (614 \<le> n)"
  proof (cases "614 \<le> n")
    case True
    then have "real_of_int 614 \<le> real_of_int n" by (simp only: of_int_le_iff)
    then have "614 / 1023 \<le> x" by (simp add: x_def)
    with b(1) have "5404319552844595 / 9007199254740992 < to_float (to_double x)"
      by linarith
    with True show ?thesis by simp
  next
    case False
    then have "n \<le> 613" by simp
    then have "real_of_int n \<le> real_of_int 613" by (simp only: of_int_le_iff)
    then have "x \<le> 613 / 1023" by (simp add: x_def)
    with b(2) have "\<not> 5404319552844595 / 9007199254740992 < to_float (to_double x)"
      by linarith
    with False show ?thesis by simp
  qed
  then show ?thesis by (simp only: threshold_exact(1) x_def)
qed

text \<open>The table-driven machine degrades a token from a stored score of 614 on.\<close>

lemma degradation_score_threshold:
  "calculate_degradation_score (Some (t \<lparr> tok_value := Some v \<rparr>)) > to_double (6 / 10)
     \<longleftrightarrow> 614 \<le> uint (score (metrics v))"
  using float_threshold [of "uint (score (metrics v))"] score_le_1023 [of "score (metrics v)"]
  by (simp add: calculate_degradation_score_def del: of_int_uint)

text \<open>The state query reports it DEGRADED from a stored score of 601 on.\<close>

lemma get_state_degraded_iff:
  "allocated (mem_flags t) \<noteq> 0 \<Longrightarrow> locked (mem_flags t) = 0 \<Longrightarrow>
   shared (mem_flags t) = 0 \<Longrightarrow> tok_value t = Some v \<Longrightarrow>
   gosiuml_get_state (Some t) =
     (if 601 \<le> uint (score (metrics v)) then STATE_DEGRADED else STATE_ACTIVE)"
  by (auto simp add: gosiuml_get_state_def)

lemma degradation_score_at_601:
  "calculate_degradation_score (Some (with_score 601 active_token)) = 9856409 / 16777216"
  by (simp add: calculate_degradation_score_def with_score_def to_float_def to_double_def
      round_binary_def round_even_def Let_def doublings_unfold)

lemma threshold_at_601:
  "\<not> to_double (6 / 10) < calculate_degradation_score (Some (with_score 601 active_token))"
  by (simp add: degradation_score_at_601 threshold_exact)

text \<open>
  C3. A token is to be DEGRADED exactly when its score divided by 1023 exceeds 0.6. At a
  stored score of 601 the quotient is below 0.6 and the table-driven transition stays
  ACTIVE, yet the state query reports DEGRADED: its constant 600 is not 0.6 on the scale
  of 1023.
\<close>

theorem get_state_degraded_at_601:
  "gosiuml_get_state (Some (with_score 601 active_token)) = STATE_DEGRADED
   \<and> calculate_degradation_score (Some (with_score 601 active_token)) \<le> 6 / 10
   \<and> transition_active_to_degraded (machine_on (with_score 601 active_token))
       = Some (STATE_ACTIVE, machine_on (with_score 601 active_token))"
proof -
  have "gosiuml_get_state (Some (with_score 601 active_token)) = STATE_DEGRADED"
    by (simp add: gosiuml_get_state_def with_score_def active_token_def zero_flags_def)
  moreover have "calculate_degradation_score (Some (with_score 601 active_token)) \<le> 6 / 10"
    by (simp add: degradation_score_at_601)
  moreover have "transition_active_to_degraded (machine_on (with_score 601 active_token))
       = Some (STATE_ACTIVE, machine_on (with_score 601 active_token))"
    using threshold_at_601
    by (simp add: transition_active_to_degraded_def machine_on_def Let_def)
  ultimately show ?thesis by simp
qed


text \<open>The \<open>float\<close> scores on either side of the threshold, and the score written back.\<close>

lemma degradation_score_at_613_614:
  "calculate_degradation_score (Some (with_score 613 active_token)) = 5026605 / 8388608"
  "calculate_degradation_score (Some (with_score 614 active_token)) = 5034805 / 8388608"
  by (simp_all add: calculate_degradation_score_def with_score_def to_float_def to_double_def
      round_binary_def round_even_def Let_def doublings_unfold)

lemma float_product_at_614:
  "to_float (5034805 / 8388608 * 1023) = 614"
  "to_float (5150605515 / 8388608) = 614"
  by (simp_all add: to_float_def round_binary_def round_even_def Let_def halvings_unfold)

lemma score_written_back_at_614:
  "transition_active_to_degraded (machine_on (with_score 614 active_token))
     = Some (STATE_DEGRADED, machine_on (with_score 614 active_token))"
proof -
  have d: "calculate_degradation_score (token (machine_on (with_score 614 active_token)))
      = 5034805 / 8388608"
    by (simp add: machine_on_def degradation_score_at_613_614)
  show ?thesis
    unfolding transition_active_to_degraded_def Let_def d
    by (simp add: threshold_exact float_product_at_614 machine_on_def with_score_def)
qed

section \<open>Locking twice\<close>








section \<open>Relation block and codec\<close>

lemma byte_mask: "(0xFF :: 32 word) = mask 8"
  by (simp add: mask_eq_exp_minus_1)

lemma load_store: "load_field (store_field v) = v AND 0xFF"
  unfolding byte_mask load_field_def store_field_def
  by (rule bit_word_eqI) (auto simp add: bit_simps)

lemma fits_mask:
  assumes "v \<le> 0xFF"
  shows "v AND 0xFF = (v :: 32 word)"
proof -
  from assms have "uint v \<le> 255" by (simp add: word_le_def)
  then have "uint v < 2 ^ 8" by simp
  then have "v AND mask 8 = v" by (simp only: mask_eq_iff)
  then show ?thesis by (simp only: byte_mask)
qed

lemma decode_encode_masked:
  "decode (encode a b c d) = (masked a, masked b, masked c, masked d)"
  by (cases a; cases b; cases c; cases d)
    (simp add: encode_def decode_def masked_def load_store)

lemma masked_fits: "fits g \<Longrightarrow> masked g = g"
  by (cases g) (simp add: fits_def masked_def fits_mask)

text \<open>
  The stores of \<open>parse_token_file\<close> behave so: the rotation of the type byte 0xFF has
  eleven bits, and the field keeps the low eight of them; the four bytes of the token
  value sit in four fields and give the value back.
\<close>

lemma rotate_left_exceeds_field: "ROTATE_LEFT 0xFF 3 = 0x7FF"
  by (simp add: ROTATE_LEFT_def)

lemma parse_relation_truncates: "class_id (parse_relation 0xFF val idx) = 0xFF"
  by (simp add: parse_relation_def ROTATE_LEFT_def store_field_def)

lemma bytes_of_word:
  "(v AND mask 8) OR push_bit 8 (drop_bit 8 v AND mask 8)
     OR push_bit 16 (drop_bit 16 v AND mask 8)
     OR push_bit 24 (drop_bit 24 v AND mask 8) = (v :: 32 word)"
proof (rule bit_word_eqI)
  fix n :: nat
  assume "n < LENGTH(32)"
  then have n: "n < 32" by simp
  consider "n < 8" | "8 \<le> n" "n < 16" | "16 \<le> n" "n < 24" | "24 \<le> n" "n < 32"
    using n by linarith
  then show "bit ((v AND mask 8) OR push_bit 8 (drop_bit 8 v AND mask 8)
       OR push_bit 16 (drop_bit 16 v AND mask 8)
       OR push_bit 24 (drop_bit 24 v AND mask 8)) n = bit v n"
    by cases (auto simp add: bit_simps)
qed

lemma parse_relation_keeps_value:
  "load_field (subject_type (parse_relation ty val idx))
     OR push_bit 8 (load_field (subject_state (parse_relation ty val idx)))
     OR push_bit 16 (load_field (subject_class (parse_relation ty val idx)))
     OR push_bit 24 (load_field (person_id (parse_relation ty val idx))) = val"
proof -
  have "load_field (subject_type (parse_relation ty val idx)) = val AND mask 8"
    and "load_field (subject_state (parse_relation ty val idx)) = drop_bit 8 val AND mask 8"
    and "load_field (subject_class (parse_relation ty val idx)) = drop_bit 16 val AND mask 8"
    and "load_field (person_id (parse_relation ty val idx)) = drop_bit 24 val AND mask 8"
    by (simp_all add: parse_relation_def load_store byte_mask)
  then show ?thesis by (simp only: bytes_of_word)
qed

text \<open>
  C5. For all four groups, decoding the encoded block returns each sub-field value
  masked to its low eight bits, so nothing is rejected; when every sub-field value fits
  in eight bits, decoding returns the four groups themselves.
\<close>

theorem codec_round_trip:
  "decode (encode a b c d) = (masked a, masked b, masked c, masked d)
   \<and> (fits a \<and> fits b \<and> fits c \<and> fits d \<longrightarrow> decode (encode a b c d) = (a, b, c, d))"
  by (simp add: decode_encode_masked masked_fits)

theorem codec_round_trip_witness:
  "fits (1, 2, 3, 4) \<and> fits (5, 6, 7, 8) \<and> fits (9, 10, 11, 12) \<and> fits (13, 14, 15, 255)
   \<and> decode (encode (1, 2, 3, 4) (5, 6, 7, 8) (9, 10, 11, 12) (13, 14, 15, 255))
       = ((1, 2, 3, 4), (5, 6, 7, 8), (9, 10, 11, 12), (13, 14, 15, 255))"
proof -
  have f: "fits (1, 2, 3, 4) \<and> fits (5, 6, 7, 8) \<and> fits (9, 10, 11, 12)
      \<and> fits (13, 14, 15, 255)"
    by (simp add: fits_def)
  with codec_round_trip [of "(1, 2, 3, 4)" "(5, 6, 7, 8)" "(9, 10, 11, 12)" "(13, 14, 15, 255)"]
  show ?thesis by blast
qed

section \<open>Balance of the ordered view\<close>

lemma height_node [simp]: "height (node l k v r) = Suc (max (height l) (height r))"
  by (simp add: node_def)

lemma balanced_node [simp]:
  "balanced (node l k v r) \<longleftrightarrow>
     balanced l \<and> balanced r \<and> height l \<le> Suc (height r) \<and> height r \<le> Suc (height l)"
  by (auto simp add: node_def)

lemma rotate_right_node [simp]:
  "rotate_right (node (Node ll lk lv lb lr) k v r) = node ll lk lv (node lr k v r)"
  "rotate_right (node (node ll lk lv lr) k v r) = node ll lk lv (node lr k v r)"
  by (simp_all add: node_def)

lemma rotate_left_node [simp]:
  "rotate_left (node l k v (Node rl rk rv rb rr)) = node (node l k v rl) rk rv rr"
  "rotate_left (node l k v (node rl rk rv rr)) = node (node l k v rl) rk rv rr"
  by (simp_all add: node_def)

text \<open>Subtrees whose heights differ by at most one need no rotation.\<close>

lemma rebalance_level:
  "height l \<le> Suc (height r) \<Longrightarrow> height r \<le> Suc (height l) \<Longrightarrow>
     rebalance l k v r = node l k v r"
  by (simp add: rebalance_def Let_def)

text \<open>A left subtree that is two levels deeper: one rotation, or two.\<close>

lemma rebalance_left_heavy:
  assumes "balanced l" and "balanced r" and "height l = height r + 2"
  shows "balanced (rebalance l k v r)
     \<and> (height (rebalance l k v r) = height r + 2 \<or> height (rebalance l k v r) = height r + 3)"
proof (cases l)
  case Leaf
  with assms show ?thesis by simp
next
  case (Node ll lk lv lb lr)
  note l = this
  show ?thesis
  proof (cases "lb < 0")
    case False
    with assms l show ?thesis
      by (auto simp add: rebalance_def Let_def)
  next
    case True
    with assms l obtain lrl lrk lrv lrb lrr where lr: "lr = Node lrl lrk lrv lrb lrr"
      by (cases lr) auto
    with True assms l show ?thesis
      by (auto simp add: rebalance_def Let_def)
  qed
qed

lemma rebalance_right_heavy:
  assumes "balanced l" and "balanced r" and "height r = height l + 2"
  shows "balanced (rebalance l k v r)
     \<and> (height (rebalance l k v r) = height l + 2 \<or> height (rebalance l k v r) = height l + 3)"
proof (cases r)
  case Leaf
  with assms show ?thesis by simp
next
  case (Node rl rk rv rb rr)
  note r = this
  show ?thesis
  proof (cases "rb > 0")
    case False
    with assms r show ?thesis
      by (auto simp add: rebalance_def Let_def)
  next
    case True
    with assms r obtain rll rlk rlv rlb rlr where rl: "rl = Node rll rlk rlv rlb rlr"
      by (cases rl) auto
    with True assms r show ?thesis
      by (auto simp add: rebalance_def Let_def)
  qed
qed

lemma rebalance_cases:
  assumes "balanced l" and "balanced r"
    and "height l \<le> height r + 2" and "height r \<le> height l + 2"
  shows "balanced (rebalance l k v r)"
    and "height (rebalance l k v r) = max (height l) (height r)
         \<or> height (rebalance l k v r) = Suc (max (height l) (height r))"
    and "height l \<le> Suc (height r) \<Longrightarrow> height r \<le> Suc (height l) \<Longrightarrow>
         height (rebalance l k v r) = Suc (max (height l) (height r))"
proof -
  consider (lh) "height l = height r + 2" | (rh) "height r = height l + 2"
    | (lev) "height l \<le> Suc (height r)" "height r \<le> Suc (height l)"
    using assms(3,4) by linarith
  then have "balanced (rebalance l k v r)
      \<and> (height (rebalance l k v r) = max (height l) (height r)
         \<or> height (rebalance l k v r) = Suc (max (height l) (height r)))"
  proof cases
    case lh
    from rebalance_left_heavy [OF assms(1,2) lh, of k v] lh show ?thesis
      by (auto simp add: max_def)
  next
    case rh
    from rebalance_right_heavy [OF assms(1,2) rh, of k v] rh show ?thesis
      by (auto simp add: max_def)
  next
    case lev
    with assms(1,2) show ?thesis by (simp add: rebalance_level)
  qed
  then show "balanced (rebalance l k v r)"
    and "height (rebalance l k v r) = max (height l) (height r)
         \<or> height (rebalance l k v r) = Suc (max (height l) (height r))"
    by simp_all
  show "height l \<le> Suc (height r) \<Longrightarrow> height r \<le> Suc (height l) \<Longrightarrow>
         height (rebalance l k v r) = Suc (max (height l) (height r))"
    by (simp add: rebalance_level)
qed

text \<open>Insertion keeps the view balanced and raises its height by one at most.\<close>

lemma tree_insert_balanced:
  "balanced t \<Longrightarrow>
     balanced (tree_insert x v t)
     \<and> (height (tree_insert x v t) = height t \<or> height (tree_insert x v t) = Suc (height t))"
proof (induction t)
  case Leaf
  show ?case by simp
next
  case (Node l k w b r)
  then have bl: "balanced l" and br: "balanced r"
    and hs: "height l \<le> Suc (height r)" "height r \<le> Suc (height l)"
    by auto
  show ?case
  proof (cases "compare_keys x k")
    case EQ
    with Node.prems show ?thesis by auto
  next
    case LT
    from Node.IH(1) [OF bl] have il: "balanced (tree_insert x v l)"
      and hl: "height (tree_insert x v l) = height l
               \<or> height (tree_insert x v l) = Suc (height l)" by simp_all
    have a: "height (tree_insert x v l) \<le> height r + 2"
      and b: "height r \<le> height (tree_insert x v l) + 2"
      using hl hs by auto
    from rebalance_cases [OF il br a b, of k w] hl hs LT show ?thesis
      by (auto simp add: max_def split: if_splits)
  next
    case GT
    from Node.IH(2) [OF br] have ir: "balanced (tree_insert x v r)"
      and hr: "height (tree_insert x v r) = height r
               \<or> height (tree_insert x v r) = Suc (height r)" by simp_all
    have a: "height l \<le> height (tree_insert x v r) + 2"
      and b: "height (tree_insert x v r) \<le> height l + 2"
      using hr hs by auto
    from rebalance_cases [OF bl ir a b, of k w] hr hs GT show ?thesis
      by (auto simp add: max_def split: if_splits)
  qed
qed

text \<open>Removal keeps the view balanced and lowers its height by one at most.\<close>

lemma take_min_balanced:
  "balanced l \<Longrightarrow> balanced r \<Longrightarrow> height l \<le> Suc (height r) \<Longrightarrow> height r \<le> Suc (height l) \<Longrightarrow>
   take_min l k v r = (mk, mv, t') \<Longrightarrow>
     balanced t'
     \<and> (Suc (height t') = Suc (max (height l) (height r))
        \<or> height t' = Suc (max (height l) (height r)))"
proof (induction l arbitrary: k v r mk mv t')
  case Leaf
  then show ?case by (auto simp add: max_def)
next
  case (Node ll lk lv lb lr)
  obtain nk nv l' where tm: "take_min ll lk lv lr = (nk, nv, l')"
    by (cases "take_min ll lk lv lr") auto
  from Node.prems(1) have bll: "balanced ll" and blr: "balanced lr"
    and hs: "height ll \<le> Suc (height lr)" "height lr \<le> Suc (height ll)" by auto
  from Node.IH(1) [OF bll blr hs tm]
  have bl': "balanced l'"
    and hl': "Suc (height l') = Suc (max (height ll) (height lr))
              \<or> height l' = Suc (max (height ll) (height lr))" by simp_all
  from Node.prems(5) tm have t': "t' = rebalance l' k v r" by simp
  have a: "height l' \<le> height r + 2" and b: "height r \<le> height l' + 2"
    using hl' Node.prems(3,4) by auto
  from rebalance_cases [OF bl' Node.prems(2) a b, of k v] hl' Node.prems(3,4) t'
  show ?case
    by (auto simp add: max_def split: if_splits)
qed

lemma tree_delete_balanced:
  "balanced t \<Longrightarrow>
     balanced (tree_delete x t)
     \<and> (height (tree_delete x t) = height t \<or> Suc (height (tree_delete x t)) = height t)"
proof (induction t)
  case Leaf
  show ?case by simp
next
  case (Node l k v b r)
  then have bl: "balanced l" and br: "balanced r"
    and hs: "height l \<le> Suc (height r)" "height r \<le> Suc (height l)"
    by auto
  show ?case
  proof (cases "compare_keys x k")
    case LT
    from Node.IH(1) [OF bl] have dl: "balanced (tree_delete x l)"
      and hl: "height (tree_delete x l) = height l
               \<or> Suc (height (tree_delete x l)) = height l" by simp_all
    have a: "height (tree_delete x l) \<le> height r + 2"
      and b: "height r \<le> height (tree_delete x l) + 2"
      using hl hs by auto
    from rebalance_cases [OF dl br a b, of k v] hl hs LT show ?thesis
      by (auto simp add: max_def split: if_splits)
  next
    case GT
    from Node.IH(2) [OF br] have dr: "balanced (tree_delete x r)"
      and hr: "height (tree_delete x r) = height r
               \<or> Suc (height (tree_delete x r)) = height r" by simp_all
    have a: "height l \<le> height (tree_delete x r) + 2"
      and b: "height (tree_delete x r) \<le> height l + 2"
      using hr hs by auto
    from rebalance_cases [OF bl dr a b, of k v] hr hs GT show ?thesis
      by (auto simp add: max_def split: if_splits)
  next
    case EQ
    show ?thesis
    proof (cases r)
      case Leaf
      with EQ bl hs show ?thesis by (auto simp add: max_def)
    next
      case (Node rl rk rv rb rr)
      obtain mk mv r' where tm: "take_min rl rk rv rr = (mk, mv, r')"
        by (cases "take_min rl rk rv rr") auto
      from br Node have brl: "balanced rl" and brr: "balanced rr"
        and hrs: "height rl \<le> Suc (height rr)" "height rr \<le> Suc (height rl)" by auto
      from take_min_balanced [OF brl brr hrs tm]
      have br': "balanced r'"
        and hr': "Suc (height r') = height r \<or> height r' = height r"
        using Node by simp_all
      have a: "height l \<le> height r' + 2" and b: "height r' \<le> height l + 2"
        using hr' hs by auto
      from rebalance_cases [OF bl br' a b, of mk mv] hr' hs EQ Node tm show ?thesis
        by (auto simp add: max_def split: if_splits)
    qed
  qed
qed

text \<open>Each completed insert or remove of the index leaves the view balanced.\<close>

lemma index_insert_balanced:
  "balanced (ordered idx) \<Longrightarrow> index_insert hash_function idx k v = Inr idx' \<Longrightarrow>
     balanced (ordered idx')"
  by (auto simp add: index_insert_def Let_def tree_insert_balanced split: if_splits)

lemma index_remove_balanced:
  "balanced (ordered idx) \<Longrightarrow> index_remove hash_function idx k = Inr idx' \<Longrightarrow>
     balanced (ordered idx')"
  by (auto simp add: index_remove_def Let_def tree_delete_balanced split: if_splits)




text \<open>
  Three ascending keys are the right-heavy case: the view is rotated left and the root
  is the middle key. The seven keys of the specification's scenario give a full tree,
  and the key 4 is found in its hash bucket. A removal that leaves a node right-heavy is
  followed by a rotation.
\<close>

lemma three_ascending_keys:
  "ordered (run_operations first_byte empty_index (insert_keys [1, 2, 3]))
     = Node (Node Leaf [1] () 0 Leaf) [2] () 0 (Node Leaf [3] () 0 Leaf)"
  by (simp add: insert_keys_def index_insert_def index_lookup_def first_byte_def
      bucket_count_def empty_index_def rebalance_def node_def Let_def)

lemma seven_keys:
  "ordered (run_operations first_byte empty_index (insert_keys [5, 3, 8, 1, 4, 7, 9]))
     = Node (Node (Node Leaf [1] () 0 Leaf) [3] () 0 (Node Leaf [4] () 0 Leaf)) [5] () 0
         (Node (Node Leaf [7] () 0 Leaf) [8] () 0 (Node Leaf [9] () 0 Leaf))
   \<and> map_of (hash_buckets (run_operations first_byte empty_index
         (insert_keys [5, 3, 8, 1, 4, 7, 9])) (first_byte [4] mod bucket_count)) [4] = Some ()"
  by (simp add: insert_keys_def index_insert_def index_lookup_def first_byte_def
      bucket_count_def empty_index_def rebalance_def node_def Let_def)

lemma remove_rebalances:
  "ordered (run_operations first_byte empty_index
       (insert_keys [2, 1, 3, 4] @ [Remove [1]]))
     = Node (Node Leaf [2] () 0 Leaf) [3] () 0 (Node Leaf [4] () 0 Leaf)"
  by (simp add: insert_keys_def index_insert_def index_remove_def index_lookup_def
      first_byte_def bucket_count_def empty_index_def rebalance_def node_def Let_def)



end
